theory Spec2Isabelle
  imports Main
begin

section \<open>The ImageAnnotator component of Annotorious\<close>

text \<open>
  A shallow embedding of \<^verbatim>\<open>src/ImageAnnotator.jsx\<close>: the React component that keeps
  the current selection, decides between saving and cancelling it, drives the annotation
  layer and calls the consumer's lifecycle callbacks (\<^verbatim>\<open>this.props.on...\<close>).

  The component's state is a record. Everything the component does to the outside (a call
  on the annotation layer, a call of a consumer callback, resolving a promise it returned)
  is appended to a trace, in program order. \<^verbatim>\<open>setState(update, callback)\<close> applies the
  update and then runs the callback, as the transitions are synchronous.
\<close>

subsection \<open>Objects and references\<close>

text \<open>
  JavaScript passes objects by reference, and some properties of the component are about
  which object a callback receives (the one the component holds, or a copy). The component
  never writes to an annotation or a target: every change goes through \<^verbatim>\<open>clone\<close>. A
  reference is therefore the address of the object together with its (fixed) contents.
  A new object takes the next free address of the world.
\<close>

type_synonym addr = nat

datatype 'a ref = Ref (addr: addr) (deref: 'a)

text \<open>
  Modelled from the spec: the Annotation value type and its methods come from the
  client-core library, which is not part of the source file. The attributes are the
  four of the data model (identifier, target, \<^verbatim>\<open>isSelection\<close>, \<^verbatim>\<open>readOnly\<close>); a target
  is an opaque serialisable descriptor.
\<close>

datatype ident = Assigned string | Generated nat

type_synonym target = string

record annotation =
  ann_id :: ident
  target :: target
  isSelection :: bool
  readOnly :: bool

type_synonym element = nat

subsection \<open>What the component does to the outside\<close>

text \<open>
  The second argument that \<^verbatim>\<open>onCreateOrUpdateAnnotation\<close> hands to the consumer's
  handler: either \<^verbatim>\<open>previous.clone()\<close>, or the closure
  \<^verbatim>\<open>this.overrideAnnotationId(a)\<close>, represented by the annotation it captured.
\<close>

datatype arg2 =
    Previous "annotation ref"
  | OverrideAnnotationId "annotation ref"

datatype annotationOrId =
    ByAnnotation "annotation ref"
  | ById ident

text \<open>Calls of the consumer-supplied callbacks \<^verbatim>\<open>this.props.on...\<close>.\<close>

datatype props_call =
    OnSelectionCreated "annotation ref"
  | OnAnnotationSelected "annotation ref"
  | OnCancelSelected "annotation ref"
  | OnSelectionTargetChanged "target ref"
  | OnAnnotationCreated "annotation ref" arg2
  | OnAnnotationUpdated "annotation ref" arg2
  | OnAnnotationDeleted "annotation ref"
  | OnMouseEnterAnnotation "annotation ref"
  | OnMouseLeaveAnnotation "annotation ref"

text \<open>Calls on \<^verbatim>\<open>this.annotationLayer\<close>.\<close>

datatype layer_call =
    Deselect
  | AddOrUpdateAnnotation "annotation ref" "annotation ref option"
  | RemoveAnnotation annotationOrId
  | OverrideId ident ident
  | SelectAnnotation annotationOrId
  | Init "annotation ref list"
  | SetDrawingTool string
  | SetVisible bool

datatype document_call = AddKeyupListener | RemoveKeyupListener

datatype effect =
    Props props_call
  | Layer layer_call
  | Document document_call
  | PromiseResolved

subsection \<open>State\<close>

text \<open>The \<^verbatim>\<open>state\<close> field of the component (lines 9 to 21).\<close>

record component_state =
  selectedAnnotation :: "annotation ref option"
  selectedDOMElement :: "element option"
  modifiedTarget :: "target ref option"
  editorDisabled :: bool
  beforeHeadlessModify :: "annotation ref option"

record world =
  state :: component_state
  nextAddr :: addr
  trace :: "effect list"

definition initial_state :: "bool \<Rightarrow> component_state" where
  "initial_state disableEditor =
     \<lparr>selectedAnnotation = None, selectedDOMElement = None, modifiedTarget = None,
      editorDisabled = disableEditor, beforeHeadlessModify = None\<rparr>"

definition emit :: "effect \<Rightarrow> world \<Rightarrow> world" where
  "emit e w = w\<lparr>trace := trace w @ [e]\<rparr>"

text \<open>The \<^verbatim>\<open>resolve\<close> function of a promise returned to the caller of the API.\<close>

definition resolve :: "world \<Rightarrow> world" where
  "resolve w = emit PromiseResolved w"

subsection \<open>Methods of the Annotation value type\<close>

text \<open>
  Modelled from the spec: \<^verbatim>\<open>clone\<close> gives a new object with the same attributes, with
  the target replaced when one is given; \<^verbatim>\<open>toAnnotation\<close> promotes a draft to a full
  annotation (\<^verbatim>\<open>isSelection\<close> false) under a generated identifier; \<^verbatim>\<open>isEqual\<close> holds of
  identical annotations, whichever objects carry them. \<^verbatim>\<open>JSON.parse(JSON.stringify(t))\<close>
  is a deep copy of a target.
\<close>

definition alloc :: "'a \<Rightarrow> world \<Rightarrow> 'a ref \<times> world" where
  "alloc v w = (Ref (nextAddr w) v, w\<lparr>nextAddr := Suc (nextAddr w)\<rparr>)"

definition clone :: "annotation ref \<Rightarrow> target ref option \<Rightarrow> world \<Rightarrow> annotation ref \<times> world" where
  "clone a opt_target w =
     (case opt_target of
        None \<Rightarrow> alloc (deref a) w
      | Some t \<Rightarrow> alloc ((deref a)\<lparr>target := deref t\<rparr>) w)"

definition toAnnotation :: "annotation ref \<Rightarrow> world \<Rightarrow> annotation ref \<times> world" where
  "toAnnotation a w =
     alloc ((deref a)\<lparr>ann_id := Generated (nextAddr w), isSelection := False\<rparr>) w"

definition isEqual :: "annotation ref \<Rightarrow> annotation ref \<Rightarrow> bool" where
  "isEqual a b = (deref a = deref b)"

definition json_clone :: "target ref \<Rightarrow> world \<Rightarrow> target ref \<times> world" where
  "json_clone t w = alloc (deref t) w"

subsection \<open>The component\<close>

definition setState ::
  "(component_state \<Rightarrow> component_state) \<Rightarrow> (world \<Rightarrow> world) option \<Rightarrow> world \<Rightarrow> world" where
  "setState update opt_callback w =
     (let w' = w\<lparr>state := update (state w)\<rparr>
      in case opt_callback of None \<Rightarrow> w' | Some callback \<Rightarrow> callback w')"

definition clearState :: "(world \<Rightarrow> world) option \<Rightarrow> world \<Rightarrow> world" where
  "clearState opt_callback =
     setState (\<lambda>s. s\<lparr>selectedAnnotation := None, selectedDOMElement := None,
                     modifiedTarget := None, beforeHeadlessModify := None\<rparr>) opt_callback"

text \<open>Lines 54 to 59; the argument is \<^verbatim>\<open>evt.which\<close>.\<close>

definition headlessCancel :: "nat \<Rightarrow> world \<Rightarrow> world" where
  "headlessCancel which w =
     (if which = 27 then emit (Layer Deselect) (clearState None w) else w)"

record select_evt =
  annotation :: "annotation ref option"
  element :: "element option"
  skipEvent :: bool

text \<open>The closure \<^verbatim>\<open>select\<close> of \<^verbatim>\<open>onNormalSelect\<close> (lines 75 to 90).\<close>

definition select :: "annotation ref \<Rightarrow> element option \<Rightarrow> bool \<Rightarrow> world \<Rightarrow> world" where
  "select ann el skip w =
     setState (\<lambda>s. s\<lparr>selectedAnnotation := Some ann, selectedDOMElement := el,
                     modifiedTarget := None, beforeHeadlessModify := None\<rparr>)
       (Some (\<lambda>w.
          if \<not> skip then
            (if isSelection (deref ann)
             then (case clone ann None w of (c, w') \<Rightarrow> emit (Props (OnSelectionCreated c)) w')
             else (case clone ann None w of (c, w') \<Rightarrow> emit (Props (OnAnnotationSelected c)) w'))
          else w)) w"

definition onNormalSelect :: "select_evt \<Rightarrow> world \<Rightarrow> world" where
  "onNormalSelect evt w =
     (case annotation evt of
        Some ann \<Rightarrow>
          (case selectedAnnotation (state w) of
             Some sel \<Rightarrow>
               if \<not> isEqual sel ann
               then clearState (Some (\<lambda>w.
                      select ann (element evt) (skipEvent evt)
                        (emit (Props (OnCancelSelected sel)) w))) w
               else select ann (element evt) (skipEvent evt) w
           | None \<Rightarrow> select ann (element evt) (skipEvent evt) w)
      | None \<Rightarrow>
          (case selectedAnnotation (state w) of
             Some sel \<Rightarrow> clearState (Some (emit (Props (OnCancelSelected sel)))) w
           | None \<Rightarrow> clearState None w))"

definition handleUpdateTarget :: "element \<Rightarrow> target ref \<Rightarrow> world \<Rightarrow> world" where
  "handleUpdateTarget el t w =
     (let w1 = setState (\<lambda>s. s\<lparr>selectedDOMElement := Some el, modifiedTarget := Some t\<rparr>) None w
      in case json_clone t w1 of (c, w2) \<Rightarrow> emit (Props (OnSelectionTargetChanged c)) w2)"

definition handleMouseEnter :: "annotation ref \<Rightarrow> world \<Rightarrow> world" where
  "handleMouseEnter ann w =
     (case clone ann None w of (c, w') \<Rightarrow> emit (Props (OnMouseEnterAnnotation c)) w')"

definition handleMouseLeave :: "annotation ref \<Rightarrow> world \<Rightarrow> world" where
  "handleMouseLeave ann w =
     (case clone ann None w of (c, w') \<Rightarrow> emit (Props (OnMouseLeaveAnnotation c)) w')"

text \<open>Lines 142 to 153: the closure is applied to \<^verbatim>\<open>forcedId\<close> by the consumer.\<close>

definition overrideAnnotationId :: "annotation ref \<Rightarrow> ident \<Rightarrow> world \<Rightarrow> world" where
  "overrideAnnotationId originalAnnotation forcedId w =
     (let i = ann_id (deref originalAnnotation)
      in case selectedAnnotation (state w) of
           Some _ \<Rightarrow> clearState (Some (emit (Layer (OverrideId i forcedId)))) w
         | None \<Rightarrow> emit (Layer (OverrideId i forcedId)) w)"

text \<open>
  Lines 160 to 179. \<^verbatim>\<open>method\<close> is the name of the consumer's handler, here the handler
  itself; \<^verbatim>\<open>previous\<close> and \<^verbatim>\<open>opt_callback\<close> may be absent.
\<close>

definition onCreateOrUpdateAnnotation ::
  "(annotation ref \<Rightarrow> arg2 \<Rightarrow> props_call) \<Rightarrow> (world \<Rightarrow> world) option \<Rightarrow>
   annotation ref \<Rightarrow> annotation ref option \<Rightarrow> world \<Rightarrow> world" where
  "onCreateOrUpdateAnnotation method opt_callback ann previous w =
     (case (if isSelection (deref ann) then toAnnotation ann w else (ann, w)) of
        (a0, w0) \<Rightarrow>
          (case clone a0 (modifiedTarget (state w0)) w0 of
             (a, w1) \<Rightarrow>
               clearState (Some (\<lambda>w.
                 let w2 = emit (Layer Deselect) w;
                     w3 = emit (Layer (AddOrUpdateAnnotation a previous)) w2;
                     w4 = (case previous of
                             Some p \<Rightarrow>
                               (case clone p None w3 of
                                  (pc, w') \<Rightarrow> emit (Props (method a (Previous pc))) w')
                           | None \<Rightarrow> emit (Props (method a (OverrideAnnotationId a))) w3)
                 in case opt_callback of None \<Rightarrow> w4 | Some callback \<Rightarrow> callback w4)) w1))"

definition onDeleteAnnotation :: "annotation ref \<Rightarrow> world \<Rightarrow> world" where
  "onDeleteAnnotation ann w =
     emit (Props (OnAnnotationDeleted ann))
       (emit (Layer (RemoveAnnotation (ByAnnotation ann))) (clearState None w))"

definition onCancelAnnotation :: "annotation ref \<Rightarrow> (world \<Rightarrow> world) option \<Rightarrow> world \<Rightarrow> world" where
  "onCancelAnnotation ann opt_callback w =
     (let w1 = (if \<not> editorDisabled (state w) then emit (Layer Deselect) w else w);
          w2 = emit (Props (OnCancelSelected ann)) w1
      in clearState opt_callback w2)"

subsection \<open>External API\<close>

definition addAnnotation :: "annotation ref \<Rightarrow> world \<Rightarrow> world" where
  "addAnnotation ann w =
     (case clone ann None w of (c, w') \<Rightarrow> emit (Layer (AddOrUpdateAnnotation c None)) w')"

definition cancelSelected :: "world \<Rightarrow> world" where
  "cancelSelected w =
     (case selectedAnnotation (state w) of
        Some sel \<Rightarrow> onCancelAnnotation sel None w
      | None \<Rightarrow> w)"

text \<open>The setter \<^verbatim>\<open>disableEditor\<close> (lines 216 to 225).\<close>

definition set_disableEditor :: "bool \<Rightarrow> world \<Rightarrow> world" where
  "set_disableEditor disabled w =
     setState (\<lambda>s. s\<lparr>editorDisabled := disabled\<rparr>)
       (Some (\<lambda>w.
          if disabled \<and> \<not> editorDisabled (state w) then emit (Document AddKeyupListener) w
          else if \<not> disabled \<and> editorDisabled (state w) then emit (Document RemoveKeyupListener) w
          else w)) w"

definition removeAnnotation :: "annotationOrId \<Rightarrow> world \<Rightarrow> world" where
  "removeAnnotation annotationOrId w = emit (Layer (RemoveAnnotation annotationOrId)) w"

text \<open>
  Lines 248 to 272. The first argument is what happens when the promise resolves:
  \<^const>\<open>resolve\<close> for a call of the API, the \<^verbatim>\<open>then\<close> callback in \<^verbatim>\<open>onHeadlessSelect\<close>.
\<close>

definition saveSelected :: "(world \<Rightarrow> world) \<Rightarrow> world \<Rightarrow> world" where
  "saveSelected resolve_cb w =
     (case selectedAnnotation (state w) of
        Some a \<Rightarrow>
          if isSelection (deref a)
          then (case toAnnotation a w of
                  (a', w') \<Rightarrow>
                    onCreateOrUpdateAnnotation OnAnnotationCreated (Some resolve_cb) a' (Some a) w')
          else (case beforeHeadlessModify (state w) of
                  Some b \<Rightarrow>
                    onCreateOrUpdateAnnotation OnAnnotationUpdated (Some resolve_cb) a (Some b) w
                | None \<Rightarrow>
                    (case modifiedTarget (state w) of
                       Some _ \<Rightarrow>
                         onCreateOrUpdateAnnotation OnAnnotationUpdated (Some resolve_cb) a (Some a) w
                     | None \<Rightarrow> onCancelAnnotation a (Some resolve_cb) w))
      | None \<Rightarrow> resolve_cb w)"

text \<open>Lines 117 to 123 and 61 to 64.\<close>

definition onHeadlessSelect :: "select_evt \<Rightarrow> world \<Rightarrow> world" where
  "onHeadlessSelect evt w = saveSelected (onNormalSelect evt) w"

definition handleSelect :: "select_evt \<Rightarrow> world \<Rightarrow> world" where
  "handleSelect evt w =
     (if editorDisabled (state w) then onHeadlessSelect evt w else onNormalSelect evt w)"

text \<open>
  Lines 274 to 281. What the layer's \<^verbatim>\<open>selectAnnotation\<close> returns is an input; the
  result is the value returned to the caller.
\<close>

definition selectAnnotation ::
  "annotationOrId \<Rightarrow> annotation ref option \<Rightarrow> world \<Rightarrow> annotation ref option \<times> world" where
  "selectAnnotation arg layer_result w =
     (let w1 = emit (Layer (SelectAnnotation arg)) w
      in case layer_result of
           Some ann \<Rightarrow> (case clone ann None w1 of (c, w2) \<Rightarrow> (Some c, w2))
         | None \<Rightarrow> (None, clearState None w1))"

fun clone_all :: "annotation ref list \<Rightarrow> world \<Rightarrow> annotation ref list \<times> world" where
  "clone_all [] w = ([], w)"
| "clone_all (a # as) w =
     (case clone a None w of
        (c, w1) \<Rightarrow> (case clone_all as w1 of (cs, w2) \<Rightarrow> (c # cs, w2)))"

definition setAnnotations :: "annotation ref list \<Rightarrow> world \<Rightarrow> world" where
  "setAnnotations annotations w =
     (case clone_all annotations w of (cs, w') \<Rightarrow> emit (Layer (Init cs)) w')"

definition setDrawingTool :: "string \<Rightarrow> world \<Rightarrow> world" where
  "setDrawingTool shape w = emit (Layer (SetDrawingTool shape)) w"

definition setVisible :: "bool \<Rightarrow> world \<Rightarrow> world" where
  "setVisible visible w = emit (Layer (SetVisible visible)) w"

text \<open>Lines 296 to 312.\<close>

definition updateSelected :: "(world \<Rightarrow> world) \<Rightarrow> annotation ref \<Rightarrow> bool \<Rightarrow> world \<Rightarrow> world" where
  "updateSelected resolve_cb ann saveImmediately w =
     (case selectedAnnotation (state w) of
        Some sel \<Rightarrow>
          if saveImmediately
          then (if isSelection (deref sel)
                then onCreateOrUpdateAnnotation OnAnnotationCreated (Some resolve_cb) ann None w
                else onCreateOrUpdateAnnotation OnAnnotationUpdated (Some resolve_cb) ann (Some sel) w)
          else setState (\<lambda>s. s\<lparr>selectedAnnotation := Some ann,
                                beforeHeadlessModify :=
                                  (case beforeHeadlessModify (state w) of
                                     Some b \<Rightarrow> Some b
                                   | None \<Rightarrow> selectedAnnotation (state w))\<rparr>)
                 (Some resolve_cb) w
      | None \<Rightarrow> w)"

subsection \<open>Entry points\<close>




subsection \<open>Example worlds\<close>

definition world0 :: "bool \<Rightarrow> world" where
  "world0 disableEditor = \<lparr>state = initial_state disableEditor, nextAddr = 100, trace = []\<rparr>"

definition annA :: "annotation ref" where
  "annA = Ref 1 \<lparr>ann_id = Assigned ''a'', target = ''rect-a'', isSelection = False,
                 readOnly = False\<rparr>"

definition annB :: "annotation ref" where
  "annB = Ref 2 \<lparr>ann_id = Assigned ''b'', target = ''rect-b'', isSelection = False,
                 readOnly = False\<rparr>"

definition annC :: "annotation ref" where
  "annC = Ref 4 \<lparr>ann_id = Assigned ''a'', target = ''rect-c'', isSelection = False,
                 readOnly = False\<rparr>"

definition annY :: "annotation ref" where
  "annY = Ref 6 \<lparr>ann_id = Assigned ''a'', target = ''rect-y'', isSelection = False,
                 readOnly = False\<rparr>"

definition annA_copy :: "annotation ref" where
  "annA_copy = Ref 5 (deref annA)"

definition draftD :: "annotation ref" where
  "draftD = Ref 3 \<lparr>ann_id = Assigned ''d'', target = ''rect-d'', isSelection = True,
                   readOnly = False\<rparr>"

text \<open>The world after the layer has reported the selection of \<open>a\<close> to a fresh component.\<close>

definition selected :: "bool \<Rightarrow> annotation ref \<Rightarrow> world" where
  "selected headless a =
     handleSelect \<lparr>annotation = Some a, element = Some 7, skipEvent = False\<rparr> (world0 headless)"

section \<open>Properties\<close>

lemmas component_defs =
  emit_def resolve_def alloc_def clone_def toAnnotation_def isEqual_def json_clone_def
  setState_def clearState_def headlessCancel_def select_def onNormalSelect_def
  handleUpdateTarget_def handleMouseEnter_def handleMouseLeave_def overrideAnnotationId_def
  onCreateOrUpdateAnnotation_def onDeleteAnnotation_def onCancelAnnotation_def
  addAnnotation_def cancelSelected_def set_disableEditor_def removeAnnotation_def
  saveSelected_def onHeadlessSelect_def handleSelect_def selectAnnotation_def
  setAnnotations_def setDrawingTool_def setVisible_def updateSelected_def

lemmas example_defs =
  world0_def annA_def annB_def annC_def annY_def annA_copy_def draftD_def selected_def
  initial_state_def

subsection \<open>Callbacks run last\<close>

text \<open>
  In the commit and cancel handlers the optional callback is the last thing that runs, so
  a handler with a callback is the handler without it, followed by the callback. The same
  holds of \<^const>\<open>saveSelected\<close> and its resolution.
\<close>

lemma onCreateOrUpdateAnnotation_callback:
  "onCreateOrUpdateAnnotation method (Some k) ann previous w =
     k (onCreateOrUpdateAnnotation method None ann previous w)"
  by (simp add: onCreateOrUpdateAnnotation_def clearState_def setState_def Let_def
      split: prod.splits option.splits)

lemma onCancelAnnotation_callback:
  "onCancelAnnotation ann (Some k) w = k (onCancelAnnotation ann None w)"
  by (simp add: onCancelAnnotation_def clearState_def setState_def Let_def)

lemma saveSelected_callback: "saveSelected k w = k (saveSelected id w)"
  by (simp add: saveSelected_def onCreateOrUpdateAnnotation_callback onCancelAnnotation_callback
      split: option.splits prod.splits)

subsection \<open>The state after a handler\<close>

lemma state_onCreateOrUpdateAnnotation:
  "state (onCreateOrUpdateAnnotation method None ann previous w) = state (clearState None w)"
  by (simp add: onCreateOrUpdateAnnotation_def clearState_def setState_def Let_def emit_def
      clone_def alloc_def toAnnotation_def split: prod.splits option.splits)

lemma state_onCancelAnnotation:
  "state (onCancelAnnotation ann None w) = state (clearState None w)"
  by (simp add: onCancelAnnotation_def clearState_def setState_def Let_def emit_def)

lemma state_saveSelected:
  "selectedAnnotation (state w) \<noteq> None \<Longrightarrow>
   state (saveSelected id w) = state (clearState None w)"
  by (auto simp add: saveSelected_def onCreateOrUpdateAnnotation_callback
      onCancelAnnotation_callback state_onCreateOrUpdateAnnotation state_onCancelAnnotation
      toAnnotation_def alloc_def clearState_def setState_def
      split: option.splits prod.splits)

lemma selectedAnnotation_saveSelected:
  "selectedAnnotation (state (saveSelected id w)) = None"
proof (cases "selectedAnnotation (state w)")
  case None
  then show ?thesis by (simp add: saveSelected_def)
next
  case (Some a)
  then show ?thesis by (simp add: state_saveSelected clearState_def setState_def)
qed

text \<open>In headless mode a select event saves the current selection, then selects.\<close>

lemma headless_select:
  assumes "editorDisabled (state w)" and "annotation evt = Some ann"
  shows "handleSelect evt w = select ann (element evt) (skipEvent evt) (saveSelected id w)"
  using assms
  by (simp add: handleSelect_def onHeadlessSelect_def
      saveSelected_callback [of "onNormalSelect evt"] onNormalSelect_def
      selectedAnnotation_saveSelected)






subsection \<open>Successive updates without saving\<close>

lemma updateSelected_later:
  assumes "selectedAnnotation (state w) = Some sel"
  shows "updateSelected resolve x False w =
           w\<lparr>state := (state w)\<lparr>selectedAnnotation := Some x,
                  beforeHeadlessModify :=
                    Some (case beforeHeadlessModify (state w) of None \<Rightarrow> sel | Some b \<Rightarrow> b)\<rparr>,
              trace := trace w @ [PromiseResolved]\<rparr>"
  using assms
  by (cases "beforeHeadlessModify (state w)")
     (simp_all add: updateSelected_def setState_def resolve_def emit_def)

lemma updates_baseline:
  assumes "selectedAnnotation (state w) = Some sel" and "xs \<noteq> []"
  shows "selectedAnnotation (state (fold (\<lambda>x. updateSelected resolve x False) xs w)) =
           Some (last xs) \<and>
         beforeHeadlessModify (state (fold (\<lambda>x. updateSelected resolve x False) xs w)) =
           Some (case beforeHeadlessModify (state w) of None \<Rightarrow> sel | Some b \<Rightarrow> b) \<and>
         modifiedTarget (state (fold (\<lambda>x. updateSelected resolve x False) xs w)) =
           modifiedTarget (state w) \<and>
         nextAddr (fold (\<lambda>x. updateSelected resolve x False) xs w) = nextAddr w"
  using assms
proof (induction xs arbitrary: w sel)
  case Nil
  then show ?case by simp
next
  case (Cons x xs)
  let ?w1 = "updateSelected resolve x False w"
  have step1: "selectedAnnotation (state ?w1) = Some x"
    "beforeHeadlessModify (state ?w1) =
       Some (case beforeHeadlessModify (state w) of None \<Rightarrow> sel | Some b \<Rightarrow> b)"
    "modifiedTarget (state ?w1) = modifiedTarget (state w)"
    "nextAddr ?w1 = nextAddr w"
    using Cons.prems(1) by (simp_all add: updateSelected_later)
  show ?case
  proof (cases "xs = []")
    case True
    then show ?thesis using step1 by simp
  next
    case False
    from Cons.IH [OF step1(1) False] step1 False show ?thesis by simp
  qed
qed

lemma saveSelected_baseline:
  assumes "selectedAnnotation (state w) = Some a" and "\<not> isSelection (deref a)"
    and "beforeHeadlessModify (state w) = Some b"
  shows "trace (saveSelected resolve w) =
           trace w @
             [Layer Deselect,
              Layer (AddOrUpdateAnnotation
                       (Ref (nextAddr w)
                          (case modifiedTarget (state w) of
                             None \<Rightarrow> deref a | Some t \<Rightarrow> (deref a)\<lparr>target := deref t\<rparr>))
                       (Some b)),
              Props (OnAnnotationUpdated
                       (Ref (nextAddr w)
                          (case modifiedTarget (state w) of
                             None \<Rightarrow> deref a | Some t \<Rightarrow> (deref a)\<lparr>target := deref t\<rparr>))
                       (Previous (Ref (Suc (nextAddr w)) (deref b)))),
              PromiseResolved]"
  using assms
  by (cases "modifiedTarget (state w)")
     (simp_all add: saveSelected_def onCreateOrUpdateAnnotation_def clearState_def setState_def
        clone_def alloc_def emit_def resolve_def Let_def)

text \<open>
  After one or more calls \<^verbatim>\<open>updateSelected(x, false)\<close> the baseline is the one recorded
  before the calls, if there was one, and otherwise the annotation selected before the
  first call; \<^verbatim>\<open>saveSelected\<close> reports it as \<^verbatim>\<open>previous\<close>.
\<close>

lemma saveSelected_after_updates:
  assumes "selectedAnnotation (state w) = Some original" and "xs \<noteq> []"
    and "\<not> isSelection (deref (last xs))"
  shows "beforeHeadlessModify (state (fold (\<lambda>x. updateSelected resolve x False) xs w)) =
           Some (case beforeHeadlessModify (state w) of None \<Rightarrow> original | Some b \<Rightarrow> b) \<and>
         trace (saveSelected resolve (fold (\<lambda>x. updateSelected resolve x False) xs w)) =
           trace (fold (\<lambda>x. updateSelected resolve x False) xs w) @
             [Layer Deselect,
              Layer (AddOrUpdateAnnotation
                       (Ref (nextAddr w)
                          (case modifiedTarget (state w) of
                             None \<Rightarrow> deref (last xs)
                           | Some t \<Rightarrow> (deref (last xs))\<lparr>target := deref t\<rparr>))
                       (Some (case beforeHeadlessModify (state w) of
                                None \<Rightarrow> original | Some b \<Rightarrow> b))),
              Props (OnAnnotationUpdated
                       (Ref (nextAddr w)
                          (case modifiedTarget (state w) of
                             None \<Rightarrow> deref (last xs)
                           | Some t \<Rightarrow> (deref (last xs))\<lparr>target := deref t\<rparr>))
                       (Previous (Ref (Suc (nextAddr w))
                          (deref (case beforeHeadlessModify (state w) of
                                    None \<Rightarrow> original | Some b \<Rightarrow> b))))),
              PromiseResolved]"
proof -
  let ?w' = "fold (\<lambda>x. updateSelected resolve x False) xs w"
  note u = updates_baseline [OF assms(1) assms(2)]
  from u have sel: "selectedAnnotation (state ?w') = Some (last xs)" by simp
  from u have base: "beforeHeadlessModify (state ?w') =
      Some (case beforeHeadlessModify (state w) of None \<Rightarrow> original | Some b \<Rightarrow> b)" by simp
  from u have mt: "modifiedTarget (state ?w') = modifiedTarget (state w)" by simp
  from u have na: "nextAddr ?w' = nextAddr w" by simp
  from saveSelected_baseline [OF sel assms(3) base] base mt na show ?thesis by simp
qed

subsection \<open>The claims\<close>

text \<open>
  C2. When \<^verbatim>\<open>saveSelected\<close> finds an existing (non-draft) selected annotation with no
  pending \<^verbatim>\<open>modifiedTarget\<close> and no \<^verbatim>\<open>beforeHeadlessModify\<close> baseline, it takes the
  cancel path: the layer is deselected (outside headless mode), the cancellation callback is
  called with the annotation, the state is cleared and the promise resolves. Nothing else
  is fired, so no update.
\<close>

theorem saveSelected_unchanged_cancels:
  assumes "selectedAnnotation (state w) = Some a" and "\<not> isSelection (deref a)"
    and "modifiedTarget (state w) = None" and "beforeHeadlessModify (state w) = None"
  shows "saveSelected k w =
           k (clearState None (emit (Props (OnCancelSelected a))
                (if editorDisabled (state w) then w else emit (Layer Deselect) w))) \<and>
         state (saveSelected resolve w) = state (clearState None w) \<and>
         trace (saveSelected resolve w) =
           trace w @ (if editorDisabled (state w) then [] else [Layer Deselect]) @
             [Props (OnCancelSelected a), PromiseResolved]"
  using assms
  by (simp add: saveSelected_def onCancelAnnotation_def clearState_def setState_def
      emit_def resolve_def Let_def)

theorem saveSelected_unchanged_cancels_witness:
  "selectedAnnotation (state (selected True annA)) = Some annA \<and>
   \<not> isSelection (deref annA) \<and>
   modifiedTarget (state (selected True annA)) = None \<and>
   beforeHeadlessModify (state (selected True annA)) = None \<and>
   trace (saveSelected resolve (selected True annA)) =
     [Props (OnAnnotationSelected (Ref 100 (deref annA))),
      Props (OnCancelSelected annA), PromiseResolved]"
  using saveSelected_unchanged_cancels [of "selected True annA" annA resolve]
  by (simp add: component_defs example_defs)

text \<open>
  C1. A commit of a draft selection is claimed to call the annotation-created callback
  with the identifier callback as its second argument. \<^verbatim>\<open>saveSelected\<close> passes the draft
  as \<^verbatim>\<open>previous\<close> (line 254), and the handler then takes the branch for a present
  \<^verbatim>\<open>previous\<close> (line 172): with the draft \<open>draftD\<close> selected, the created callback
  receives the promoted annotation and a clone of the draft, not the identifier
  callback. \<^verbatim>\<open>updateSelected\<close> with \<^verbatim>\<open>saveImmediately\<close> passes no \<^verbatim>\<open>previous\<close> (line 301)
  and there the callback does receive \<^verbatim>\<open>overrideAnnotationId(a)\<close>.
\<close>

theorem saveSelected_draft_created_with_previous:
  "trace (saveSelected resolve (selected True draftD)) =
     trace (selected True draftD) @
       [Layer Deselect,
        Layer (AddOrUpdateAnnotation
                 (Ref 102 ((deref draftD)\<lparr>ann_id := Generated 101, isSelection := False\<rparr>))
                 (Some draftD)),
        Props (OnAnnotationCreated
                 (Ref 102 ((deref draftD)\<lparr>ann_id := Generated 101, isSelection := False\<rparr>))
                 (Previous (Ref 103 (deref draftD)))),
        PromiseResolved] \<and>
   trace (updateSelected resolve draftD True (selected True draftD)) =
     trace (selected True draftD) @
       [Layer Deselect,
        Layer (AddOrUpdateAnnotation
                 (Ref 102 ((deref draftD)\<lparr>ann_id := Generated 101, isSelection := False\<rparr>))
                 None),
        Props (OnAnnotationCreated
                 (Ref 102 ((deref draftD)\<lparr>ann_id := Generated 101, isSelection := False\<rparr>))
                 (OverrideAnnotationId
                    (Ref 102 ((deref draftD)\<lparr>ann_id := Generated 101,
                                               isSelection := False\<rparr>)))),
        PromiseResolved]"
  by (simp add: component_defs example_defs)

text \<open>
  C3. After successive calls \<^verbatim>\<open>updateSelected(x, false)\<close> the update event of the commit
  is claimed to report the original annotation as \<^verbatim>\<open>previous\<close>, never an intermediate
  value. The baseline \<^verbatim>\<open>beforeHeadlessModify\<close> is kept as claimed: with \<open>annA\<close> selected and
  the updates \<open>annB\<close>, \<open>annC\<close> it is still \<open>annA\<close>, and \<^verbatim>\<open>saveSelected\<close> reports a clone of
  \<open>annA\<close>. A commit by \<^verbatim>\<open>updateSelected(annY, true)\<close> does not read the baseline: it passes
  \<^verbatim>\<open>this.state.selectedAnnotation\<close> as \<^verbatim>\<open>previous\<close> (line 303), so that the update
  callback receives a clone of the intermediate value \<open>annC\<close>.
\<close>

theorem updateSelected_commit_reports_intermediate_previous:
  "beforeHeadlessModify
     (state (fold (\<lambda>x. updateSelected resolve x False) [annB, annC] (selected True annA))) =
     Some annA \<and>
   selectedAnnotation
     (state (fold (\<lambda>x. updateSelected resolve x False) [annB, annC] (selected True annA))) =
     Some annC \<and>
   trace (updateSelected resolve annY True
            (fold (\<lambda>x. updateSelected resolve x False) [annB, annC] (selected True annA))) =
     trace (fold (\<lambda>x. updateSelected resolve x False) [annB, annC] (selected True annA)) @
       [Layer Deselect, Layer (AddOrUpdateAnnotation (Ref 101 (deref annY)) (Some annC)),
        Props (OnAnnotationUpdated (Ref 101 (deref annY)) (Previous (Ref 102 (deref annC)))),
        PromiseResolved] \<and>
   trace (saveSelected resolve
            (fold (\<lambda>x. updateSelected resolve x False) [annB, annC] (selected True annA))) =
     trace (fold (\<lambda>x. updateSelected resolve x False) [annB, annC] (selected True annA)) @
       [Layer Deselect, Layer (AddOrUpdateAnnotation (Ref 101 (deref annC)) (Some annA)),
        Props (OnAnnotationUpdated (Ref 101 (deref annC)) (Previous (Ref 102 (deref annA)))),
        PromiseResolved]"
  by (simp add: component_defs example_defs)

text \<open>
  C4. The commit handler \<^verbatim>\<open>onCreateOrUpdateAnnotation\<close> commits the annotation it is
  called on, promoted by \<^verbatim>\<open>toAnnotation\<close> first when it is a draft, as a clone whose
  target is \<^verbatim>\<open>modifiedTarget\<close> when that is set and a plain clone otherwise: this is the
  annotation given to the layer and to the callback. In \<^verbatim>\<open>saveSelected\<close>, whenever it
  commits, the annotation so committed is the selected one.
\<close>

theorem commit_merges_modifiedTarget:
  "trace (onCreateOrUpdateAnnotation method None ann previous w) =
     (let promoted = (if isSelection (deref ann)
                      then (deref ann)\<lparr>ann_id := Generated (nextAddr w), isSelection := False\<rparr>
                      else deref ann);
          k = (if isSelection (deref ann) then Suc (nextAddr w) else nextAddr w);
          a = Ref k (case modifiedTarget (state w) of
                       Some t \<Rightarrow> promoted\<lparr>target := deref t\<rparr>
                     | None \<Rightarrow> promoted)
      in trace w @
           [Layer Deselect, Layer (AddOrUpdateAnnotation a previous),
            Props (method a (case previous of
                               Some p \<Rightarrow> Previous (Ref (Suc k) (deref p))
                             | None \<Rightarrow> OverrideAnnotationId a))]) \<and>
   (selectedAnnotation (state w) = Some sel \<and>
    (isSelection (deref sel) \<or> beforeHeadlessModify (state w) \<noteq> None \<or>
     modifiedTarget (state w) \<noteq> None) \<longrightarrow>
    (let promoted = (if isSelection (deref sel)
                     then (deref sel)\<lparr>ann_id := Generated (nextAddr w), isSelection := False\<rparr>
                     else deref sel);
         k = (if isSelection (deref sel) then Suc (nextAddr w) else nextAddr w);
         a = Ref k (case modifiedTarget (state w) of
                      Some t \<Rightarrow> promoted\<lparr>target := deref t\<rparr>
                    | None \<Rightarrow> promoted);
         previous = (if isSelection (deref sel) then sel
                     else case beforeHeadlessModify (state w) of Some b \<Rightarrow> b | None \<Rightarrow> sel)
     in trace (saveSelected resolve w) =
          trace w @
            [Layer Deselect, Layer (AddOrUpdateAnnotation a (Some previous)),
             Props ((if isSelection (deref sel) then OnAnnotationCreated else OnAnnotationUpdated)
                      a (Previous (Ref (Suc k) (deref previous)))),
             PromiseResolved]))"
  by (auto simp add: saveSelected_def onCreateOrUpdateAnnotation_def clearState_def setState_def
        clone_def alloc_def toAnnotation_def emit_def resolve_def Let_def split: option.splits)

theorem commit_merges_modifiedTarget_witness:
  "selectedAnnotation
     (state (handleUpdateTarget 7 (Ref 5 ''rect-moved'') (selected True draftD))) =
     Some draftD \<and>
   isSelection (deref draftD) \<and>
   trace (saveSelected resolve
            (handleUpdateTarget 7 (Ref 5 ''rect-moved'') (selected True draftD))) =
     [Props (OnSelectionCreated (Ref 100 (deref draftD))),
      Props (OnSelectionTargetChanged (Ref 101 ''rect-moved'')),
      Layer Deselect,
      Layer (AddOrUpdateAnnotation
               (Ref 103 \<lparr>ann_id = Generated 102, target = ''rect-moved'', isSelection = False,
                         readOnly = False\<rparr>) (Some draftD)),
      Props (OnAnnotationCreated
               (Ref 103 \<lparr>ann_id = Generated 102, target = ''rect-moved'', isSelection = False,
                         readOnly = False\<rparr>) (Previous (Ref 104 (deref draftD)))),
      PromiseResolved]"
  using commit_merges_modifiedTarget
    [of OnAnnotationCreated draftD None
        "handleUpdateTarget 7 (Ref 5 ''rect-moved'') (selected True draftD)" draftD]
  by (simp add: component_defs example_defs)

text \<open>
  C5. With no current selection both calls are claimed to be no-ops whose promise resolves
  at once. \<^verbatim>\<open>updateSelected\<close> has no \<^verbatim>\<open>else\<close> branch for a missing selection (lines 298
  to 311): on a fresh component it leaves the world as it is, and the promise is not
  resolved, whatever \<^verbatim>\<open>saveImmediately\<close> is. \<^verbatim>\<open>saveSelected\<close> does resolve (line 270).
\<close>

theorem updateSelected_without_selection_never_resolves:
  "selectedAnnotation (state (world0 True)) = None \<and>
   trace (world0 True) = [] \<and>
   updateSelected resolve annB False (world0 True) = world0 True \<and>
   updateSelected resolve annB True (world0 True) = world0 True \<and>
   saveSelected resolve (world0 True) = (world0 True)\<lparr>trace := [PromiseResolved]\<rparr>"
  by (simp add: component_defs example_defs)

text \<open>
  C6. Outside headless mode, a select event for an annotation that is not equal to the
  selected one is handled in this order: the state is cleared, the cancellation callback
  is called once with the old selection, and then the new selection is stored and its
  selection callback called with a clone (unless the event asks to skip it). Nothing else
  is fired, and afterwards the new annotation is the selected one.
\<close>

theorem select_other_cancels_previous_first:
  assumes "\<not> editorDisabled (state w)" and "selectedAnnotation (state w) = Some old"
    and "annotation evt = Some new" and "\<not> isEqual old new"
  shows "handleSelect evt w =
           select new (element evt) (skipEvent evt)
             (emit (Props (OnCancelSelected old)) (clearState None w)) \<and>
         trace (handleSelect evt w) =
           trace w @ [Props (OnCancelSelected old)] @
             (if skipEvent evt then []
              else [Props ((if isSelection (deref new) then OnSelectionCreated
                            else OnAnnotationSelected) (Ref (nextAddr w) (deref new)))]) \<and>
         state (handleSelect evt w) =
           \<lparr>selectedAnnotation = Some new, selectedDOMElement = element evt,
            modifiedTarget = None, editorDisabled = False, beforeHeadlessModify = None\<rparr>"
  using assms
  by (simp add: handleSelect_def onNormalSelect_def clearState_def setState_def select_def
      emit_def clone_def alloc_def Let_def)

theorem select_other_cancels_previous_first_witness:
  "\<not> editorDisabled (state (selected False annA)) \<and>
   selectedAnnotation (state (selected False annA)) = Some annA \<and>
   \<not> isEqual annA annB \<and>
   trace (handleSelect \<lparr>annotation = Some annB, element = Some 8, skipEvent = False\<rparr>
            (selected False annA)) =
     [Props (OnAnnotationSelected (Ref 100 (deref annA))),
      Props (OnCancelSelected annA),
      Props (OnAnnotationSelected (Ref 101 (deref annB)))] \<and>
   selectedAnnotation
     (state (handleSelect \<lparr>annotation = Some annB, element = Some 8, skipEvent = False\<rparr>
               (selected False annA))) = Some annB"
  using select_other_cancels_previous_first
    [of "selected False annA" annA
        "\<lparr>annotation = Some annB, element = Some 8, skipEvent = False\<rparr>" annB]
  by (simp add: component_defs example_defs)

text \<open>
  C7. Escape in headless mode is claimed to fire the cancellation callback for the selected
  annotation. \<^verbatim>\<open>headlessCancel\<close> (lines 54 to 59) clears the state and deselects in the
  layer, and calls no callback: with \<open>annA\<close> selected in headless mode, the only effect of
  key 27 is the layer's \<^verbatim>\<open>deselect\<close>.
\<close>

theorem headlessCancel_fires_no_cancellation:
  "editorDisabled (state (selected True annA)) \<and>
   selectedAnnotation (state (selected True annA)) = Some annA \<and>
   state (headlessCancel 27 (selected True annA)) = initial_state True \<and>
   trace (headlessCancel 27 (selected True annA)) =
     trace (selected True annA) @ [Layer Deselect]"
  by (simp add: component_defs example_defs)

text \<open>
  C8. A select event for an annotation equal (by \<^verbatim>\<open>isEqual\<close>) to the selected one.
  Outside headless mode it fires no cancellation, and runs \<^verbatim>\<open>select\<close> all the same
  (line 102): the event's annotation and element are stored, \<^verbatim>\<open>modifiedTarget\<close> and the
  baseline are reset, and the selection callback is called again with a clone, unless the
  event has \<^verbatim>\<open>skipEvent\<close> set. In headless mode the event first runs \<^verbatim>\<open>saveSelected\<close> on
  the current selection (with whatever that fires) and then \<^verbatim>\<open>select\<close>.
\<close>

theorem select_same_fires_selection_unless_skipEvent:
  assumes "selectedAnnotation (state w) = Some sel"
    and "annotation evt = Some ann" and "isEqual sel ann"
  shows "(\<not> editorDisabled (state w) \<longrightarrow>
           trace (handleSelect evt w) =
             trace w @
               (if skipEvent evt then []
                else [Props ((if isSelection (deref ann) then OnSelectionCreated
                              else OnAnnotationSelected) (Ref (nextAddr w) (deref ann)))]) \<and>
           state (handleSelect evt w) =
             \<lparr>selectedAnnotation = Some ann, selectedDOMElement = element evt,
              modifiedTarget = None, editorDisabled = False, beforeHeadlessModify = None\<rparr>) \<and>
         (editorDisabled (state w) \<longrightarrow>
           handleSelect evt w =
             select ann (element evt) (skipEvent evt) (saveSelected id w))"
proof (intro conjI impI)
  assume "editorDisabled (state w)"
  then show "handleSelect evt w = select ann (element evt) (skipEvent evt) (saveSelected id w)"
    using assms(2) by (rule headless_select)
qed (use assms in \<open>simp_all add: handleSelect_def onNormalSelect_def clearState_def
      setState_def select_def emit_def clone_def alloc_def Let_def\<close>)

theorem select_same_fires_selection_unless_skipEvent_witness:
  "selectedAnnotation (state (selected False annA)) = Some annA \<and>
   selectedAnnotation (state (selected True annA)) = Some annA \<and>
   isEqual annA annA_copy \<and>
   \<not> editorDisabled (state (selected False annA)) \<and>
   editorDisabled (state (selected True annA)) \<and>
   trace (handleSelect \<lparr>annotation = Some annA_copy, element = Some 7, skipEvent = True\<rparr>
            (selected False annA)) =
     [Props (OnAnnotationSelected (Ref 100 (deref annA)))] \<and>
   selectedAnnotation
     (state (handleSelect \<lparr>annotation = Some annA_copy, element = Some 7, skipEvent = True\<rparr>
               (selected False annA))) = Some annA_copy \<and>
   trace (handleSelect \<lparr>annotation = Some annA_copy, element = Some 7, skipEvent = True\<rparr>
            (selected True annA)) =
     [Props (OnAnnotationSelected (Ref 100 (deref annA))), Props (OnCancelSelected annA)]"
  using select_same_fires_selection_unless_skipEvent
      [of "selected False annA" annA
          "\<lparr>annotation = Some annA_copy, element = Some 7, skipEvent = True\<rparr>" annA_copy]
    select_same_fires_selection_unless_skipEvent
      [of "selected True annA" annA
          "\<lparr>annotation = Some annA_copy, element = Some 7, skipEvent = True\<rparr>" annA_copy]
  by (simp add: component_defs example_defs)

text \<open>
  C8, as stated: with \<open>annA\<close> selected, a select event for an equal annotation without
  \<^verbatim>\<open>skipEvent\<close> calls the selection callback a second time; in headless mode the select
  first runs \<^verbatim>\<open>saveSelected\<close>, which here cancels, so that the cancellation callback is
  called for it as well.
\<close>

theorem select_same_refires_selection:
  "isEqual annA annA_copy \<and>
   selectedAnnotation (state (selected False annA)) = Some annA \<and>
   trace (handleSelect \<lparr>annotation = Some annA_copy, element = Some 7, skipEvent = False\<rparr>
            (selected False annA)) =
     trace (selected False annA) @ [Props (OnAnnotationSelected (Ref 101 (deref annA_copy)))] \<and>
   selectedAnnotation (state (selected True annA)) = Some annA \<and>
   trace (handleSelect \<lparr>annotation = Some annA_copy, element = Some 7, skipEvent = False\<rparr>
            (selected True annA)) =
     trace (selected True annA) @
       [Props (OnCancelSelected annA),
        Props (OnAnnotationSelected (Ref 101 (deref annA_copy)))]"
  by (simp add: component_defs example_defs)

text \<open>
  C9. Every lifecycle callback is claimed to receive a clone, never an object the
  component holds. The selection callbacks do: the selection of \<open>annA\<close> (the object at
  address 1) is reported with a new object at address 100. The cancellation callback
  receives the selected object itself (lines 98, 109 and 192; in \<^verbatim>\<open>onCancelAnnotation\<close>
  before the state is cleared), and the deletion callback receives the object it was
  called on (line 184).
\<close>

theorem cancel_and_delete_pass_the_object_itself:
  "selectedAnnotation (state (selected False annA)) = Some annA \<and>
   addr annA = 1 \<and>
   trace (selected False annA) = [Props (OnAnnotationSelected (Ref 100 (deref annA)))] \<and>
   trace (cancelSelected (selected False annA)) =
     trace (selected False annA) @ [Layer Deselect, Props (OnCancelSelected annA)] \<and>
   trace (handleSelect \<lparr>annotation = None, element = None, skipEvent = False\<rparr>
            (selected False annA)) =
     trace (selected False annA) @ [Props (OnCancelSelected annA)] \<and>
   trace (onDeleteAnnotation annA (selected False annA)) =
     trace (selected False annA) @
       [Layer (RemoveAnnotation (ByAnnotation annA)), Props (OnAnnotationDeleted annA)]"
  by (simp add: component_defs example_defs)



end
